theory Spec2Isabelle
  imports Complex_Main
begin

section \<open>Common data: exceptions, decimal rendering, tensors\<close>

text \<open>
  Exceptions are values. \<open>Raise k msg\<close> is a \<^verbatim>\<open>raise\<close> statement of the source, with
  the class and the message it gives; \<open>Fault k\<close> is an exception of class \<open>k\<close> raised by
  the interpreter or by a library call on a modelled path (a division by zero, an index out
  of range, an unbound local, an integer too large for the machine), whose message is not the source's. A function that can
  raise returns \<open>error + 'a\<close>, with \<open>Inl\<close> carrying the exception.
\<close>

datatype exn_kind =
    ValueError
  | KeyError
  | TypeError
  | RuntimeError
  | Exception
  | IndexError
  | ZeroDivisionError
  | UnboundLocalError
  | AttributeError
  | OverflowError
  | MemoryError

datatype error = Raise exn_kind string | Fault exn_kind

text \<open>
  Python renders an integer inside an f-string in decimal, with a leading minus sign for a
  negative one. \<open>str_nat\<close> and \<open>str_int\<close> are that rendering.
\<close>

definition digit_char :: "nat \<Rightarrow> char" where
  "digit_char d = ''0123456789'' ! d"

function str_nat :: "nat \<Rightarrow> string" where
  "str_nat n = (if n < 10 then [digit_char n] else str_nat (n div 10) @ [digit_char (n mod 10)])"
  by pat_completeness auto
termination
  by (relation "measure (\<lambda>n. n)") auto

definition str_int :: "int \<Rightarrow> string" where
  "str_int i = (if i < 0 then CHR ''-'' # str_nat (nat (- i)) else str_nat (nat i))"

text \<open>
  A tensor is its shape and its elements in row-major order. \<open>ndim\<close> is the rank
  (\<^verbatim>\<open>x.ndim\<close>).
\<close>

record 'a tensor =
  shape :: "nat list"
  elems :: "'a list"

definition ndim :: "'a tensor \<Rightarrow> nat" where
  "ndim x = length (shape x)"

section \<open>Diffusion math helpers\<close>

subsection \<open>\<^verbatim>\<open>get_ancestral_step\<close>\<close>

text \<open>
  \<^verbatim>\<open>
  def get_ancestral_step(sigma_from, sigma_to, eta=1.):
      if not eta:
          return sigma_to, 0.
      sigma_up = min(sigma_to, eta * (sigma_to ** 2 * (sigma_from ** 2 - sigma_to ** 2) / sigma_from ** 2) ** 0.5)
      sigma_down = (sigma_to ** 2 - sigma_up ** 2) ** 0.5
      return sigma_down, sigma_up
  \<close>
  The noise levels are Python floats; the model computes with real numbers, so rounding is
  left out and \<^verbatim>\<open>x ** 0.5\<close> is the exact square root. A value that the model
  computes is the value of the code up to the rounding of floats, so what is stated of a
  computed value is stated within a tolerance. A number is falsy exactly when
  it is zero. For a negative base Python's \<^verbatim>\<open>x ** 0.5\<close> is a complex number (the
  imaginary square root), which \<^verbatim>\<open>min\<close> cannot compare with a float: that is the
  \<^verbatim>\<open>TypeError\<close> branch. Dividing by \<^verbatim>\<open>sigma_from ** 2 = 0\<close> raises
  \<^verbatim>\<open>ZeroDivisionError\<close>. The result is the pair \<open>(sigma_down, sigma_up)\<close>.
\<close>

datatype pynum = PyFloat real | PyComplex complex

definition pow_half :: "real \<Rightarrow> pynum" where
  "pow_half x = (if 0 \<le> x then PyFloat (sqrt x) else PyComplex (Complex 0 (sqrt (- x))))"

definition get_ancestral_step :: "real \<Rightarrow> real \<Rightarrow> real \<Rightarrow> error + (pynum \<times> real)" where
  "get_ancestral_step sigma_from sigma_to eta =
     (if eta = 0 then Inr (PyFloat sigma_to, 0)
      else if sigma_from ^ 2 = 0 then Inl (Fault ZeroDivisionError)
      else case pow_half (sigma_to ^ 2 * (sigma_from ^ 2 - sigma_to ^ 2) / sigma_from ^ 2) of
             PyComplex z \<Rightarrow> Inl (Fault TypeError)
           | PyFloat r \<Rightarrow>
               (let sigma_up = min sigma_to (eta * r);
                    sigma_down = pow_half (sigma_to ^ 2 - sigma_up ^ 2)
                in Inr (sigma_down, sigma_up)))"

subsection \<open>\<^verbatim>\<open>append_dims\<close>\<close>

text \<open>
  \<^verbatim>\<open>
  def append_dims(x, target_dims):
      dims_to_append = target_dims - x.ndim
      if dims_to_append < 0:
          raise ValueError(f'input has {x.ndim} dims but target_dims is {target_dims}, which is less')
      return x[(...,) + (None,) * dims_to_append]
  \<close>
  Indexing with an ellipsis followed by \<open>k\<close> times \<^verbatim>\<open>None\<close> gives a view of the same
  elements whose shape has \<open>k\<close> further axes of length 1 at the end. The tuple
  \<^verbatim>\<open>(None,) * dims_to_append\<close> is built first: Python integers are unbounded, but the
  repetition count of a tuple must fit the index-sized integer of the interpreter, at most
  \<^verbatim>\<open>sys.maxsize\<close> (\<open>2\<^sup>6\<^sup>3 - 1\<close> on a 64-bit build), or the multiplication raises
  \<^verbatim>\<open>OverflowError\<close>; and the tuple and the view must be allocated, or it raises
  \<^verbatim>\<open>MemoryError\<close>. How many further axes the machine can hold is the parameter
  \<open>capacity\<close>.
\<close>

definition maxsize :: int where
  "maxsize = 2 ^ 63 - 1"

definition append_dims :: "nat \<Rightarrow> 'a tensor \<Rightarrow> int \<Rightarrow> error + 'a tensor" where
  "append_dims capacity x target_dims =
     (let dims_to_append = target_dims - int (ndim x)
      in if dims_to_append < 0
         then Inl (Raise ValueError (''input has '' @ str_int (int (ndim x)) @
                '' dims but target_dims is '' @ str_int target_dims @ '', which is less''))
         else if maxsize < dims_to_append then Inl (Fault OverflowError)
         else if int capacity < dims_to_append then Inl (Fault MemoryError)
         else Inr (x\<lparr>shape := shape x @ replicate (nat dims_to_append) 1\<rparr>))"

section \<open>Tensor and image conversion\<close>

subsection \<open>\<^verbatim>\<open>create_random_tensors\<close>\<close>

text \<open>
  \<^verbatim>\<open>
  def create_random_tensors(shape, seeds):
      xs = []
      for seed in seeds:
          torch.manual_seed(seed)
          xs.append(torch.randn(shape, device='cpu'))
      return torch.stack(xs)
  \<close>
  The random generator of torch is process-wide state of a type \<open>'g\<close> that the model
  passes explicitly. The library is a parameter: \<open>manual_seed\<close> maps a seed that torch
  accepts (an integer of its 64-bit range) to the generator state it installs, whatever the
  state was, and any other seed to the error torch raises, with the state left as it was;
  \<open>normal\<close> draws one standard normal sample and advances the state. \<open>randn\<close> fills a tensor of the requested shape
  with successive samples. \<open>stack\<close> is \<^verbatim>\<open>torch.stack\<close> along dimension 0: it raises
  \<^verbatim>\<open>RuntimeError\<close> on an empty list and on tensors of different shapes, and otherwise
  joins the tensors under a new leading dimension.
\<close>

fun draws :: "('g \<Rightarrow> 'a \<times> 'g) \<Rightarrow> nat \<Rightarrow> 'g \<Rightarrow> 'a list \<times> 'g" where
  "draws normal 0 g = ([], g)"
| "draws normal (Suc n) g =
     (case normal g of (x, g1) \<Rightarrow> (case draws normal n g1 of (xs, g2) \<Rightarrow> (x # xs, g2)))"

definition randn :: "('g \<Rightarrow> 'a \<times> 'g) \<Rightarrow> nat list \<Rightarrow> 'g \<Rightarrow> 'a tensor \<times> 'g" where
  "randn normal shp g =
     (case draws normal (prod_list shp) g of (xs, g1) \<Rightarrow> (\<lparr>shape = shp, elems = xs\<rparr>, g1))"

definition stack :: "'a tensor list \<Rightarrow> error + 'a tensor" where
  "stack ts =
     (if ts = [] then Inl (Fault RuntimeError)
      else if \<not> list_all (\<lambda>t. shape t = shape (hd ts)) ts then Inl (Fault RuntimeError)
      else Inr \<lparr>shape = length ts # shape (hd ts), elems = concat (map elems ts)\<rparr>)"

text \<open>
  The \<^verbatim>\<open>for\<close> loop: \<open>xs\<close> is the list built so far, \<open>g\<close> the generator state. A seed
  that \<open>manual_seed\<close> rejects ends the loop with its error.
\<close>

fun seed_loop ::
  "(int \<Rightarrow> error + 'g) \<Rightarrow> ('g \<Rightarrow> 'a \<times> 'g) \<Rightarrow> nat list \<Rightarrow> int list \<Rightarrow> 'a tensor list \<Rightarrow> 'g
     \<Rightarrow> (error + 'a tensor list) \<times> 'g" where
  "seed_loop manual_seed normal shp [] xs g = (Inr xs, g)"
| "seed_loop manual_seed normal shp (seed # seeds) xs g =
     (case manual_seed seed of
        Inl e \<Rightarrow> (Inl e, g)
      | Inr g0 \<Rightarrow>
          (case randn normal shp g0 of
             (x, g1) \<Rightarrow> seed_loop manual_seed normal shp seeds (xs @ [x]) g1))"

definition create_random_tensors ::
  "(int \<Rightarrow> error + 'g) \<Rightarrow> ('g \<Rightarrow> 'a \<times> 'g) \<Rightarrow> nat list \<Rightarrow> int list \<Rightarrow> 'g
     \<Rightarrow> (error + 'a tensor) \<times> 'g" where
  "create_random_tensors manual_seed normal shp seeds g =
     (case seed_loop manual_seed normal shp seeds [] g of
        (Inl e, g1) \<Rightarrow> (Inl e, g1)
      | (Inr xs, g1) \<Rightarrow> (stack xs, g1))"

text \<open>
  \<open>accepts manual_seed s\<close> says that the seed \<open>s\<close> is one that \<open>manual_seed\<close> takes, and
  \<open>seeded manual_seed s\<close> is then the generator state it installs. They are not functions
  of the source: the properties are stated with them.
\<close>

definition accepts :: "(int \<Rightarrow> error + 'g) \<Rightarrow> int \<Rightarrow> bool" where
  "accepts manual_seed s = (case manual_seed s of Inl e \<Rightarrow> False | Inr g \<Rightarrow> True)"



text \<open>
  A small concrete generator for evaluating the functions: the state is a counter, a seed
  from \<open>0\<close> to \<open>2\<^sup>6\<^sup>4 - 1\<close> sets it and any other seed is rejected, a draw returns the
  counter and advances it by one.
\<close>

definition counter_seed :: "int \<Rightarrow> error + nat" where
  "counter_seed s =
     (if 0 \<le> s \<and> s < 2 ^ 64 then Inr (nat (10 * s)) else Inl (Fault RuntimeError))"

definition counter_normal :: "nat \<Rightarrow> int \<times> nat" where
  "counter_normal g = (int g, Suc g)"

subsection \<open>\<^verbatim>\<open>resize_image\<close>\<close>

text \<open>
  An image is an object of the imaging library: the model keeps its identity and its size.
  The library calls are recorded, in order, in a log that is part of the state together
  with the next unused identity, so that which object a function returns and which calls
  it made are visible in the result. The pixel contents are not modelled, and neither are
  the library's own checks of its arguments.
\<close>

record image =
  ident :: nat
  width :: int
  height :: int

datatype pil_call =
    Resize nat "int \<times> int" "(int \<times> int \<times> int \<times> int) option" nat
  | New "int \<times> int" nat
  | Paste nat nat "int \<times> int"

record pil_state =
  next_id :: nat
  calls :: "pil_call list"

text \<open>
  \<open>Resize src size box new\<close> is \<^verbatim>\<open>src.resize(size, resample=LANCZOS, box=box)\<close> returning
  the new image \<open>new\<close>; \<open>New size new\<close> is \<^verbatim>\<open>Image.new("RGBA", size)\<close>;
  \<open>Paste dst src at\<close> is \<^verbatim>\<open>dst.paste(src, box=at)\<close>.
\<close>

definition im_resize ::
  "image \<Rightarrow> int \<times> int \<Rightarrow> (int \<times> int \<times> int \<times> int) option \<Rightarrow> pil_state \<Rightarrow> image \<times> pil_state" where
  "im_resize im sz box st =
     (\<lparr>ident = next_id st, width = fst sz, height = snd sz\<rparr>,
      \<lparr>next_id = Suc (next_id st), calls = calls st @ [Resize (ident im) sz box (next_id st)]\<rparr>)"

definition image_new :: "int \<times> int \<Rightarrow> pil_state \<Rightarrow> image \<times> pil_state" where
  "image_new sz st =
     (\<lparr>ident = next_id st, width = fst sz, height = snd sz\<rparr>,
      \<lparr>next_id = Suc (next_id st), calls = calls st @ [New sz (next_id st)]\<rparr>)"

definition im_paste :: "image \<Rightarrow> image \<Rightarrow> int \<times> int \<Rightarrow> pil_state \<Rightarrow> pil_state" where
  "im_paste dst src pos st = st\<lparr>calls := calls st @ [Paste (ident dst) (ident src) pos]\<rparr>"

text \<open>
  Python's \<^verbatim>\<open>/\<close> and \<^verbatim>\<open>//\<close> on integers: both raise \<^verbatim>\<open>ZeroDivisionError\<close> on a zero
  divisor; \<^verbatim>\<open>/\<close> gives the quotient as a float (here a real number), \<^verbatim>\<open>//\<close> rounds
  towards minus infinity, as \<open>div\<close> on \<open>int\<close> does.
\<close>

definition truediv :: "int \<Rightarrow> int \<Rightarrow> error + real" where
  "truediv a b = (if b = 0 then Inl (Fault ZeroDivisionError) else Inr (real_of_int a / real_of_int b))"

definition floordiv :: "int \<Rightarrow> int \<Rightarrow> error + int" where
  "floordiv a b = (if b = 0 then Inl (Fault ZeroDivisionError) else Inr (a div b))"

text \<open>
  \<^verbatim>\<open>
  def resize_image(im, width, height, mode='stretch'):
      if im.width == width and im.height == height:
          return im
      LANCZOS = (Image.Resampling.LANCZOS if hasattr(Image, 'Resampling') else Image.LANCZOS)
      if mode == 'stretch':
          res = im.resize((width, height), resample=LANCZOS)
      elif mode == 'pad':
          ratio = width / height
          src_ratio = im.width / im.height
          src_w = width if ratio > src_ratio else im.width * height // im.height
          src_h = height if ratio <= src_ratio else im.height * width // im.width
          resized = im.resize((src_w, src_h), resample=LANCZOS)
          res = Image.new("RGBA", (width, height))
          res.paste(resized, box=(width // 2 - src_w // 2, height // 2 - src_h // 2))
      elif mode == 'repeat':
          ratio = width / height
          src_ratio = im.width / im.height
          src_w = width if ratio < src_ratio else im.width * height // im.height
          src_h = height if ratio >= src_ratio else im.height * width // im.width
          resized = im.resize((src_w, src_h), resample=LANCZOS)
          res = Image.new("RGBA", (width, height))
          res.paste(resized, box=(width // 2 - src_w // 2, height // 2 - src_h // 2))
          if ratio < src_ratio:
              fill_height = height // 2 - src_h // 2
              res.paste(resized.resize((width, fill_height), box=(0, 0, width, 0)), box=(0, 0))
              res.paste(resized.resize((width, fill_height),
                        box=(0, resized.height, width, resized.height)), box=(0, fill_height + src_h))
          elif ratio > src_ratio:
              fill_width = width // 2 - src_w // 2
              res.paste(resized.resize((fill_width, height), box=(0, 0, 0, height)), box=(0, 0))
              res.paste(resized.resize((fill_width, height),
                        box=(resized.width, 0, resized.width, height)), box=(fill_width + src_w, 0))
      return res
  \<close>
  \<open>ratios\<close> is the pair \<open>(ratio, src_ratio)\<close>; \<open>pad_size\<close> and \<open>repeat_size\<close> are the
  two lines that compute \<open>(src_w, src_h)\<close> in each of the two branches; a conditional expression evaluates only the arm it selects. A mode that is
  none of the three strings leaves \<^verbatim>\<open>res\<close> unbound at the \<^verbatim>\<open>return\<close>.
\<close>

definition ratios :: "image \<Rightarrow> int \<Rightarrow> int \<Rightarrow> error + (real \<times> real)" where
  "ratios im w h =
     (case truediv w h of Inl e \<Rightarrow> Inl e | Inr ratio \<Rightarrow>
      case truediv (width im) (height im) of Inl e \<Rightarrow> Inl e | Inr src_ratio \<Rightarrow>
      Inr (ratio, src_ratio))"

definition pad_size :: "image \<Rightarrow> int \<Rightarrow> int \<Rightarrow> real \<Rightarrow> real \<Rightarrow> error + (int \<times> int)" where
  "pad_size im w h ratio src_ratio =
     (case (if ratio > src_ratio then Inr w else floordiv (width im * h) (height im)) of
        Inl e \<Rightarrow> Inl e | Inr src_w \<Rightarrow>
      case (if ratio \<le> src_ratio then Inr h else floordiv (height im * w) (width im)) of
        Inl e \<Rightarrow> Inl e | Inr src_h \<Rightarrow>
      Inr (src_w, src_h))"

definition repeat_size :: "image \<Rightarrow> int \<Rightarrow> int \<Rightarrow> real \<Rightarrow> real \<Rightarrow> error + (int \<times> int)" where
  "repeat_size im w h ratio src_ratio =
     (case (if ratio < src_ratio then Inr w else floordiv (width im * h) (height im)) of
        Inl e \<Rightarrow> Inl e | Inr src_w \<Rightarrow>
      case (if ratio \<ge> src_ratio then Inr h else floordiv (height im * w) (width im)) of
        Inl e \<Rightarrow> Inl e | Inr src_h \<Rightarrow>
      Inr (src_w, src_h))"

text \<open>
  The resize, the new canvas and the centred paste that the two branches share; the result
  is the canvas \<^verbatim>\<open>res\<close> and the resized image.
\<close>

definition paste_centred ::
  "image \<Rightarrow> int \<Rightarrow> int \<Rightarrow> int \<times> int \<Rightarrow> pil_state \<Rightarrow> (image \<times> image) \<times> pil_state" where
  "paste_centred im w h src st =
     (case im_resize im src None st of (resized, st1) \<Rightarrow>
      case image_new (w, h) st1 of (res, st2) \<Rightarrow>
      ((res, resized),
       im_paste res resized (w div 2 - fst src div 2, h div 2 - snd src div 2) st2))"

text \<open>The two strips that the \<^verbatim>\<open>repeat\<close> branch fills beside the pasted image.\<close>

definition fill_margins ::
  "image \<Rightarrow> image \<Rightarrow> int \<Rightarrow> int \<Rightarrow> int \<times> int \<Rightarrow> real \<Rightarrow> real \<Rightarrow> pil_state \<Rightarrow> pil_state" where
  "fill_margins res resized w h src ratio src_ratio st =
     (if ratio < src_ratio then
        (let fill_height = h div 2 - snd src div 2
         in case im_resize resized (w, fill_height) (Some (0, 0, w, 0)) st of (strip1, st1) \<Rightarrow>
            case im_resize resized (w, fill_height)
                   (Some (0, height resized, w, height resized)) (im_paste res strip1 (0, 0) st1) of
              (strip2, st2) \<Rightarrow> im_paste res strip2 (0, fill_height + snd src) st2)
      else if ratio > src_ratio then
        (let fill_width = w div 2 - fst src div 2
         in case im_resize resized (fill_width, h) (Some (0, 0, 0, h)) st of (strip1, st1) \<Rightarrow>
            case im_resize resized (fill_width, h)
                   (Some (width resized, 0, width resized, h)) (im_paste res strip1 (0, 0) st1) of
              (strip2, st2) \<Rightarrow> im_paste res strip2 (fill_width + fst src, 0) st2)
      else st)"

definition resize_image ::
  "image \<Rightarrow> int \<Rightarrow> int \<Rightarrow> string \<Rightarrow> pil_state \<Rightarrow> (error + image) \<times> pil_state" where
  "resize_image im w h mode st =
     (if width im = w \<and> height im = h then (Inr im, st)
      else if mode = ''stretch'' then
        (case im_resize im (w, h) None st of (res, st1) \<Rightarrow> (Inr res, st1))
      else if mode = ''pad'' then
        (case ratios im w h of Inl e \<Rightarrow> (Inl e, st) | Inr (ratio, src_ratio) \<Rightarrow>
         case pad_size im w h ratio src_ratio of Inl e \<Rightarrow> (Inl e, st) | Inr src \<Rightarrow>
         case paste_centred im w h src st of ((res, resized), st1) \<Rightarrow> (Inr res, st1))
      else if mode = ''repeat'' then
        (case ratios im w h of Inl e \<Rightarrow> (Inl e, st) | Inr (ratio, src_ratio) \<Rightarrow>
         case repeat_size im w h ratio src_ratio of Inl e \<Rightarrow> (Inl e, st) | Inr src \<Rightarrow>
         case paste_centred im w h src st of ((res, resized), st1) \<Rightarrow>
           (Inr res, fill_margins res resized w h src ratio src_ratio st1))
      else (Inl (Fault UnboundLocalError), st))"

section \<open>Generic helpers\<close>

subsection \<open>\<^verbatim>\<open>exists\<close> and \<^verbatim>\<open>default\<close>\<close>

text \<open>
  \<^verbatim>\<open>
  def exists(x):
      return x is not None

  def default(val, d):
      if exists(val):
          return val
      return d() if isfunction(d) else d
  \<close>
  A Python value is \<^verbatim>\<open>None\<close>, a plain datum, a function object (made by \<^verbatim>\<open>def\<close> or
  \<^verbatim>\<open>lambda\<close>: what \<^verbatim>\<open>inspect.isfunction\<close> recognises) or another callable (a class, a
  builtin, a \<^verbatim>\<open>functools.partial\<close>, an object with \<^verbatim>\<open>__call__\<close>). Calling a callable
  with no argument gives a value or raises. \<open>default\<close> is a constant of HOL, so the
  function is \<open>default_py\<close>.
\<close>

datatype pyobj =
    PyNone
  | PyInt int
  | PyStr string
  | PyDict "(string \<times> pyobj) list"
  | PyFunction "unit \<Rightarrow> error + pyobj"
  | PyCallable "unit \<Rightarrow> error + pyobj"

definition exists :: "pyobj \<Rightarrow> bool" where
  "exists x = (x \<noteq> PyNone)"

definition isfunction :: "pyobj \<Rightarrow> bool" where
  "isfunction d = (case d of PyFunction f \<Rightarrow> True | _ \<Rightarrow> False)"

definition callable :: "pyobj \<Rightarrow> bool" where
  "callable d = (case d of PyFunction f \<Rightarrow> True | PyCallable f \<Rightarrow> True | _ \<Rightarrow> False)"

definition call0 :: "pyobj \<Rightarrow> error + pyobj" where
  "call0 d = (case d of PyFunction f \<Rightarrow> f () | PyCallable f \<Rightarrow> f () | _ \<Rightarrow> Inl (Fault TypeError))"

definition default_py :: "pyobj \<Rightarrow> pyobj \<Rightarrow> error + pyobj" where
  "default_py val d = (if exists val then Inr val else if isfunction d then call0 d else Inr d)"

text \<open>
  Two concrete callables for evaluating \<open>default_py\<close>: the builtin class \<^verbatim>\<open>dict\<close>, which
  called with no argument makes an empty dictionary, and \<^verbatim>\<open>lambda: 7\<close>.
\<close>

definition dict_class :: "unit \<Rightarrow> error + pyobj" where
  "dict_class u = Inr (PyDict [])"

definition lambda_seven :: "unit \<Rightarrow> error + pyobj" where
  "lambda_seven u = Inr (PyInt 7)"

section \<open>Configuration-driven object instantiation\<close>

text \<open>
  \<^verbatim>\<open>
  def instantiate_from_config(config):
      if not "target" in config:
          if config == '__is_first_stage__':
              return None
          elif config == "__is_unconditional__":
              return None
          raise KeyError("Expected key `target` to instantiate.")
      return get_obj_from_str(config["target"])(**config.get("params", dict()))

  def get_obj_from_str(string, reload=False):
      module, cls = string.rsplit(".", 1)
      if reload:
          module_imp = importlib.import_module(module)
          importlib.reload(module_imp)
      return getattr(importlib.import_module(module, package=None), cls)
  \<close>
  A configuration is a \<open>pyobj\<close>: a mapping (\<open>PyDict\<close>) or a string. The operator
  \<^verbatim>\<open>in\<close> asks a mapping for a key and a string for a substring, and raises
  \<^verbatim>\<open>TypeError\<close> on a value that is not a container. Importing is a parameter:
  \<open>resolve m c\<close> is the attribute \<open>c\<close> of the module \<open>m\<close>, as a constructor taking
  keyword arguments, or the error of the import or of the attribute lookup;
  \<open>reload_module m\<close> is the import and reload of \<open>m\<close>.
\<close>

fun is_prefix :: "string \<Rightarrow> string \<Rightarrow> bool" where
  "is_prefix [] s = True"
| "is_prefix (a # p) [] = False"
| "is_prefix (a # p) (b # s) = (a = b \<and> is_prefix p s)"

fun str_contains :: "string \<Rightarrow> string \<Rightarrow> bool" where
  "str_contains sub [] = (sub = [])"
| "str_contains sub (c # s) = (is_prefix sub (c # s) \<or> str_contains sub s)"

definition py_in :: "string \<Rightarrow> pyobj \<Rightarrow> error + bool" where
  "py_in key obj =
     (case obj of
        PyStr s \<Rightarrow> Inr (str_contains key s)
      | PyDict kvs \<Rightarrow> Inr (map_of kvs key \<noteq> None)
      | _ \<Rightarrow> Inl (Fault TypeError))"

text \<open>
  \<open>has_key obj key\<close> says that \<open>obj\<close> is a mapping that holds \<open>key\<close>. It is not a function
  of the source, whose test is \<open>py_in\<close>: it is what a record having a key means, and on a
  mapping the two agree.
\<close>

definition has_key :: "pyobj \<Rightarrow> string \<Rightarrow> bool" where
  "has_key obj key = (case obj of PyDict kvs \<Rightarrow> map_of kvs key \<noteq> None | _ \<Rightarrow> False)"

definition getitem :: "pyobj \<Rightarrow> string \<Rightarrow> error + pyobj" where
  "getitem obj key =
     (case obj of
        PyDict kvs \<Rightarrow> (case map_of kvs key of None \<Rightarrow> Inl (Fault KeyError) | Some v \<Rightarrow> Inr v)
      | _ \<Rightarrow> Inl (Fault TypeError))"

definition dict_get :: "pyobj \<Rightarrow> string \<Rightarrow> pyobj \<Rightarrow> error + pyobj" where
  "dict_get obj key dflt =
     (case obj of
        PyDict kvs \<Rightarrow> (case map_of kvs key of None \<Rightarrow> Inr dflt | Some v \<Rightarrow> Inr v)
      | _ \<Rightarrow> Inl (Fault AttributeError))"

text \<open>\<^verbatim>\<open>string.rsplit(".", 1)\<close>: the parts before and after the last dot, or the string alone.\<close>

definition rsplit_dot :: "string \<Rightarrow> string list" where
  "rsplit_dot s =
     (if CHR ''.'' \<in> set s
      then [rev (tl (dropWhile (\<lambda>c. c \<noteq> CHR ''.'') (rev s))),
            rev (takeWhile (\<lambda>c. c \<noteq> CHR ''.'') (rev s))]
      else [s])"

type_synonym 'o constructor = "(string \<times> pyobj) list \<Rightarrow> error + 'o"

definition get_obj_from_str ::
  "(string \<Rightarrow> string \<Rightarrow> error + 'o constructor) \<Rightarrow> (string \<Rightarrow> error + unit) \<Rightarrow> pyobj \<Rightarrow> bool
     \<Rightarrow> error + 'o constructor" where
  "get_obj_from_str resolve reload_module string reload =
     (case string of
        PyStr s \<Rightarrow>
          (case rsplit_dot s of
             [modname, cls] \<Rightarrow>
               (if reload
                then (case reload_module modname of Inl e \<Rightarrow> Inl e | Inr u \<Rightarrow> resolve modname cls)
                else resolve modname cls)
           | _ \<Rightarrow> Inl (Fault ValueError))
      | _ \<Rightarrow> Inl (Fault AttributeError))"

definition instantiate_from_config ::
  "(string \<Rightarrow> string \<Rightarrow> error + pyobj constructor) \<Rightarrow> (string \<Rightarrow> error + unit) \<Rightarrow> pyobj
     \<Rightarrow> error + pyobj" where
  "instantiate_from_config resolve reload_module config =
     (case py_in ''target'' config of Inl e \<Rightarrow> Inl e | Inr has_target \<Rightarrow>
      if \<not> has_target then
        (if config = PyStr ''__is_first_stage__'' then Inr PyNone
         else if config = PyStr ''__is_unconditional__'' then Inr PyNone
         else Inl (Raise KeyError
                (''Expected key '' @ [CHR 0x60] @ ''target'' @ [CHR 0x60] @ '' to instantiate.'')))
      else
        (case getitem config ''target'' of Inl e \<Rightarrow> Inl e | Inr target \<Rightarrow>
         case get_obj_from_str resolve reload_module target False of
           Inl e \<Rightarrow> Inl e | Inr ctor \<Rightarrow>
         case dict_get config ''params'' (PyDict []) of Inl e \<Rightarrow> Inl e | Inr params \<Rightarrow>
         case params of PyDict kwargs \<Rightarrow> ctor kwargs | _ \<Rightarrow> Inl (Fault TypeError)))"

text \<open>A resolver that knows no module, for evaluating the function.\<close>

definition no_modules :: "string \<Rightarrow> string \<Rightarrow> error + pyobj constructor" where
  "no_modules m c = Inl (Fault AttributeError)"

definition no_reload :: "string \<Rightarrow> error + unit" where
  "no_reload m = Inr ()"

section \<open>Parallel data prefetch\<close>

text \<open>
  The input \<^verbatim>\<open>data\<close> is a numpy array, a list, a dict, another iterable (a tuple, a
  generator) or a value that is not iterable, which carries the text of its type for the
  error message. \<open>elements\<close> is what iterating over the value yields; for a dict the
  source replaces the value by the list of its values before it iterates.
\<close>

datatype 'a pydata =
    NdArray "'a list"
  | ListData "'a list"
  | DictData "(string \<times> 'a) list"
  | OtherIterable "'a list"
  | NonIterable string

definition is_ndarray :: "'a pydata \<Rightarrow> bool" where
  "is_ndarray data = (case data of NdArray xs \<Rightarrow> True | _ \<Rightarrow> False)"

definition is_iterable :: "'a pydata \<Rightarrow> bool" where
  "is_iterable data = (case data of NonIterable ty \<Rightarrow> False | _ \<Rightarrow> True)"

definition dict_values :: "'a pydata \<Rightarrow> 'a pydata" where
  "dict_values data = (case data of DictData kvs \<Rightarrow> ListData (map snd kvs) | _ \<Rightarrow> data)"

definition elements :: "'a pydata \<Rightarrow> 'a list" where
  "elements data =
     (case data of
        NdArray xs \<Rightarrow> xs
      | ListData xs \<Rightarrow> xs
      | DictData kvs \<Rightarrow> map snd kvs
      | OtherIterable xs \<Rightarrow> xs
      | NonIterable ty \<Rightarrow> [])"

text \<open>
  What the function does is recorded in a trace: a printed line, the creation of the queue
  (with the flag \<^verbatim>\<open>cpu_intensive\<close> that selects processes or threads), the
  construction of the worker with a given index and its start. A worker is described by the
  arguments it is constructed with: its part of the data, its index and the flag
  \<^verbatim>\<open>use_worker_id\<close> (the function and the queue are the same for all workers).
\<close>

datatype event =
    Printed string
  | QueueCreated bool
  | WorkerConstructed nat
  | WorkerStarted nat

record 'a task =
  part :: "'a list"
  idx :: nat
  idx_to_fn :: bool

text \<open>
  Lines 214 to 229, the check and conversion of \<^verbatim>\<open>data\<close>:
  \<^verbatim>\<open>
  if isinstance(data, np.ndarray) and target_data_type == "list":
      raise ValueError("list expected but function got ndarray.")
  elif isinstance(data, abc.Iterable):
      if isinstance(data, dict):
          print(f'WARNING:"data" argument passed to parallel_data_prefetch is a dict: Using only its values and disregarding keys.')
          data = list(data.values())
      if target_data_type == "ndarray":
          data = np.asarray(data)
      else:
          data = list(data)
  else:
      raise TypeError(f"The data, that shall be processed parallel has to be either an np.ndarray or an Iterable, but is actually {type(data)}.")
  \<close>
\<close>

definition dict_warning :: string where
  "dict_warning = ''WARNING:'' @ [CHR 0x22] @ ''data'' @ [CHR 0x22] @
     '' argument passed to parallel_data_prefetch is a dict: Using only its values and disregarding keys.''"

definition type_name :: "'a pydata \<Rightarrow> string" where
  "type_name data = (case data of NonIterable ty \<Rightarrow> ty | _ \<Rightarrow> [])"

definition check_data ::
  "'a pydata \<Rightarrow> string \<Rightarrow> event list \<Rightarrow> (error + 'a pydata) \<times> event list" where
  "check_data data target_data_type tr =
     (if is_ndarray data \<and> target_data_type = ''list''
      then (Inl (Raise ValueError ''list expected but function got ndarray.''), tr)
      else if is_iterable data then
        (case (case data of
                 DictData kvs \<Rightarrow> (dict_values data, tr @ [Printed dict_warning])
               | _ \<Rightarrow> (data, tr)) of
           (data1, tr1) \<Rightarrow>
             (Inr (if target_data_type = ''ndarray'' then NdArray (elements data1)
                   else ListData (elements data1)), tr1))
      else (Inl (Raise TypeError
              (''The data, that shall be processed parallel has to be either an np.ndarray or an Iterable, but is actually ''
               @ type_name data @ ''.'')), tr))"

text \<open>
  Lines 243 to 254, the parts of a list:
  \<^verbatim>\<open>
  step = (
      int(len(data) / n_proc + 1)
      if len(data) % n_proc != 0
      else int(len(data) / n_proc)
  )
  arguments = [
      [func, Q, part, i, use_worker_id]
      for i, part in enumerate(
          [data[i: i + step] for i in range(0, len(data), step)]
      )
  ]
  \<close>
  \<^verbatim>\<open>int\<close> truncates a float towards zero; \<^verbatim>\<open>%\<close> and \<^verbatim>\<open>/\<close> raise on the divisor 0;
  \<^verbatim>\<open>range\<close> raises \<^verbatim>\<open>ValueError\<close> on the step 0 and is empty for a negative step. The
  quotient is computed in real numbers, without the rounding of floats.
\<close>

definition py_trunc :: "real \<Rightarrow> int" where
  "py_trunc x = (if 0 \<le> x then \<lfloor>x\<rfloor> else \<lceil>x\<rceil>)"

definition list_step :: "nat \<Rightarrow> int \<Rightarrow> error + int" where
  "list_step len n_proc =
     (if n_proc = 0 then Inl (Fault ZeroDivisionError)
      else if int len mod n_proc \<noteq> 0
      then Inr (py_trunc (real len / real_of_int n_proc + 1))
      else Inr (py_trunc (real len / real_of_int n_proc)))"

definition py_range :: "nat \<Rightarrow> int \<Rightarrow> error + nat list" where
  "py_range stop step =
     (if step = 0 then Inl (Fault ValueError)
      else if step < 0 then Inr []
      else Inr (map (\<lambda>k. k * nat step) [0 ..< (stop + nat step - 1) div nat step]))"

definition list_parts :: "'a list \<Rightarrow> int \<Rightarrow> error + 'a list list" where
  "list_parts data n_proc =
     (case list_step (length data) n_proc of Inl e \<Rightarrow> Inl e | Inr step \<Rightarrow>
      case py_range (length data) step of Inl e \<Rightarrow> Inl e | Inr starts \<Rightarrow>
      Inr (map (\<lambda>i. take (nat step) (drop i data)) starts))"

definition make_arguments :: "'a list list \<Rightarrow> bool \<Rightarrow> 'a task list" where
  "make_arguments parts use_worker_id =
     map (\<lambda>(i, p). \<lparr>part = p, idx = i, idx_to_fn = use_worker_id\<rparr>) (enumerate 0 parts)"

text \<open>
  Lines 255 to 258, the construction of the workers; \<open>k\<close> counts the iterations that remain
  and \<open>i\<close> is the loop variable. Indexing \<^verbatim>\<open>arguments\<close> past its end raises
  \<^verbatim>\<open>IndexError\<close>.
  \<^verbatim>\<open>
  processes = []
  for i in range(n_proc):
      p = proc(target=_do_parallel_data_prefetch, args=arguments[i])
      processes += [p]
  \<close>
\<close>

fun construct_workers ::
  "'a task list \<Rightarrow> nat \<Rightarrow> nat \<Rightarrow> 'a task list \<Rightarrow> event list
     \<Rightarrow> (error + 'a task list) \<times> event list" where
  "construct_workers arguments 0 i processes tr = (Inr processes, tr)"
| "construct_workers arguments (Suc k) i processes tr =
     (if i < length arguments
      then construct_workers arguments k (Suc i) (processes @ [arguments ! i])
             (tr @ [WorkerConstructed i])
      else (Inl (Fault IndexError), tr))"

text \<open>
  The whole function up to the start of the workers. \<open>array_split\<close> is
  \<^verbatim>\<open>np.array_split\<close>, a parameter. What follows the construction (starting the workers,
  reading the queue until every worker is done, joining them, assembling the result: lines
  260 to 302) runs concurrently and is the parameter \<open>gather\<close>, which is given the
  constructed workers and the trace and alone can add a \<open>WorkerStarted\<close> event.
\<close>

definition parallel_data_prefetch ::
  "('a list \<Rightarrow> int \<Rightarrow> error + 'a list list) \<Rightarrow>
   ('a task list \<Rightarrow> event list \<Rightarrow> (error + 'r) \<times> event list) \<Rightarrow>
   'a pydata \<Rightarrow> int \<Rightarrow> string \<Rightarrow> bool \<Rightarrow> bool \<Rightarrow> event list \<Rightarrow> (error + 'r) \<times> event list" where
  "parallel_data_prefetch array_split gather data n_proc target_data_type cpu_intensive
     use_worker_id tr =
     (case check_data data target_data_type tr of
        (Inl e, tr1) \<Rightarrow> (Inl e, tr1)
      | (Inr data1, tr1) \<Rightarrow>
          (let tr2 = tr1 @ [QueueCreated cpu_intensive]
           in case (if target_data_type = ''ndarray''
                    then array_split (elements data1) n_proc
                    else list_parts (elements data1) n_proc) of
                Inl e \<Rightarrow> (Inl e, tr2)
              | Inr parts \<Rightarrow>
                  (case construct_workers (make_arguments parts use_worker_id)
                          (nat n_proc) 0 [] tr2 of
                     (Inl e, tr3) \<Rightarrow> (Inl e, tr3)
                   | (Inr processes, tr3) \<Rightarrow> gather processes tr3)))"

text \<open>A \<open>gather\<close> that starts every worker and returns their parts, for evaluation.\<close>

definition start_all :: "'a task list \<Rightarrow> event list \<Rightarrow> (error + 'a list) \<times> event list" where
  "start_all processes tr =
     (Inr (concat (map part processes)), tr @ map (\<lambda>p. WorkerStarted (idx p)) processes)"

definition no_array_split :: "'a list \<Rightarrow> int \<Rightarrow> error + 'a list list" where
  "no_array_split xs n = Inl (Fault ValueError)"

section \<open>Model loader\<close>

text \<open>
  \<^verbatim>\<open>
  models = dict()

  def load(name):
      if name not in checkpoint_files:
          raise Exception('no checkpoint file path specified for model "%s"' % name)
      checkpoint_path = checkpoint_files[name]
      config = OmegaConf.load(
          os.path.join(os.path.dirname(__file__), 'configs', '%s.yaml' % name))
      modulename, classname = config.model.target.rsplit('.', 1)
      module = importlib.import_module(modulename)
      cls = getattr(module, classname)
      model = cls(**config.model.get("params", dict()))
      checkpoint = torch.load(checkpoint_path, map_location='cpu')
      model.load_state_dict(checkpoint['state_dict'], strict=False)
      model.half()
      model.cuda()
      model.eval()
      models[name] = model
      return model
  \<close>
  The state is the registry \<^verbatim>\<open>models\<close> and the list of the files the function has
  read. The table \<^verbatim>\<open>checkpoint_files\<close> comes from a module outside the repository and is
  a parameter, as are the libraries, gathered in a record: the directory of the loader,
  the reading of a configuration file, the import of a class, the reading of a checkpoint
  and the preparation of the model (loading the state dict, \<^verbatim>\<open>half\<close>, \<^verbatim>\<open>cuda\<close>,
  \<^verbatim>\<open>eval\<close>). A field that a configuration lacks raises the library's error.
\<close>

datatype file_access = ConfigFile string | CheckpointFile string

record 'm loader_state =
  models :: "string \<Rightarrow> 'm option"
  accessed :: "file_access list"

record 'm libraries =
  loader_dir :: string
  omegaconf_load :: "string \<Rightarrow> error + pyobj"
  import_class :: "string \<Rightarrow> string \<Rightarrow> error + 'm constructor"
  torch_load :: "string \<Rightarrow> error + pyobj"
  prepare :: "'m \<Rightarrow> pyobj \<Rightarrow> error + 'm"

definition config_path :: "string \<Rightarrow> string \<Rightarrow> string" where
  "config_path dir name = dir @ ''/configs/'' @ name @ ''.yaml''"

definition missing_checkpoint :: "string \<Rightarrow> string" where
  "missing_checkpoint name =
     ''no checkpoint file path specified for model '' @ [CHR 0x22] @ name @ [CHR 0x22]"

definition getattr_cfg :: "pyobj \<Rightarrow> string \<Rightarrow> error + pyobj" where
  "getattr_cfg obj key =
     (case obj of
        PyDict kvs \<Rightarrow> (case map_of kvs key of None \<Rightarrow> Inl (Fault AttributeError) | Some v \<Rightarrow> Inr v)
      | _ \<Rightarrow> Inl (Fault AttributeError))"

text \<open>
  Lines 19 to 22, from the configuration to the constructed model. They repeat the steps of
  \<open>get_obj_from_str\<close> without a reload (split at the last dot, import, attribute), so the
  model calls it with a reload that does nothing.
\<close>

definition build_model :: "'m libraries \<Rightarrow> pyobj \<Rightarrow> error + 'm" where
  "build_model lib config =
     (case getattr_cfg config ''model'' of Inl e \<Rightarrow> Inl e | Inr model_cfg \<Rightarrow>
      case getattr_cfg model_cfg ''target'' of Inl e \<Rightarrow> Inl e | Inr target \<Rightarrow>
      case get_obj_from_str (import_class lib) (\<lambda>m. Inr ()) target False of
        Inl e \<Rightarrow> Inl e | Inr cls \<Rightarrow>
      case dict_get model_cfg ''params'' (PyDict []) of Inl e \<Rightarrow> Inl e | Inr params \<Rightarrow>
      case params of PyDict kwargs \<Rightarrow> cls kwargs | _ \<Rightarrow> Inl (Fault TypeError))"

definition load ::
  "'m libraries \<Rightarrow> (string \<Rightarrow> string option) \<Rightarrow> string \<Rightarrow> 'm loader_state
     \<Rightarrow> (error + 'm) \<times> 'm loader_state" where
  "load lib checkpoint_files name st =
     (case checkpoint_files name of
        None \<Rightarrow> (Inl (Raise Exception (missing_checkpoint name)), st)
      | Some checkpoint_path \<Rightarrow>
          (let st1 = st\<lparr>accessed := accessed st @ [ConfigFile (config_path (loader_dir lib) name)]\<rparr>
           in case omegaconf_load lib (config_path (loader_dir lib) name) of
                Inl e \<Rightarrow> (Inl e, st1) | Inr config \<Rightarrow>
              case build_model lib config of Inl e \<Rightarrow> (Inl e, st1) | Inr model \<Rightarrow>
              (let st2 = st1\<lparr>accessed := accessed st1 @ [CheckpointFile checkpoint_path]\<rparr>
               in case torch_load lib checkpoint_path of
                    Inl e \<Rightarrow> (Inl e, st2) | Inr checkpoint \<Rightarrow>
                  case getitem checkpoint ''state_dict'' of
                    Inl e \<Rightarrow> (Inl e, st2) | Inr state_dict \<Rightarrow>
                  case prepare lib model state_dict of
                    Inl e \<Rightarrow> (Inl e, st2)
                  | Inr ready \<Rightarrow> (Inr ready, st2\<lparr>models := (models st2)(name \<mapsto> ready)\<rparr>))))"

text \<open>
  Libraries with no file to read and no module to import, for evaluating \<open>load\<close>.
\<close>

definition offline :: "unit libraries" where
  "offline =
     \<lparr>loader_dir = ''/app'',
      omegaconf_load = (\<lambda>p. Inl (Fault ValueError)),
      import_class = (\<lambda>m c. Inl (Fault AttributeError)),
      torch_load = (\<lambda>p. Inl (Fault ValueError)),
      prepare = (\<lambda>m d. Inr m)\<rparr>"


section \<open>Properties of the diffusion math helpers\<close>

subsection \<open>\<^verbatim>\<open>append_dims\<close>\<close>

lemma str_int_examples:
  "str_int 0 = ''0''" "str_int 12 = ''12''" "str_int (- 3) = ''-3''"
  by (simp_all add: str_int_def digit_char_def)

text \<open>
  Claim C3 says that for every target \<open>n \<ge> r\<close> the function returns a tensor of rank
  \<open>n\<close>. Python integers are unbounded, and for a target so large that \<open>n - r\<close> does not
  fit the index-sized integer of the interpreter, the tuple \<^verbatim>\<open>(None,) * dims_to_append\<close>
  cannot be built: the call raises \<^verbatim>\<open>OverflowError\<close>, here for a tensor of rank 2 and
  the target \<open>2\<^sup>7\<^sup>0\<close>.
\<close>

theorem append_dims_counterexample:
  "int (ndim \<lparr>shape = [2, 3], elems = [1, 2, 3, 4, 5, 6 :: int]\<rparr>) \<le> 2 ^ 70 \<and>
   append_dims 1000 \<lparr>shape = [2, 3], elems = [1, 2, 3, 4, 5, 6 :: int]\<rparr> (2 ^ 70) =
     Inl (Fault OverflowError)"
  by (simp add: append_dims_def ndim_def maxsize_def)

text \<open>
  Claim C3, amended. For a tensor \<open>x\<close> of rank \<open>r\<close> and a target \<open>n\<close>: when \<open>n \<ge> r\<close>
  and \<open>n - r\<close> is at most \<^verbatim>\<open>sys.maxsize\<close> and at most the number of axes the machine can
  hold, \<open>append_dims x n\<close> returns a tensor of rank \<open>n\<close> that has the shape of \<open>x\<close> as its
  first \<open>r\<close> dimensions, exactly \<open>n - r\<close> trailing dimensions of length 1 after them, and
  the elements of \<open>x\<close>; when \<open>n - r\<close> exceeds \<^verbatim>\<open>sys.maxsize\<close> it raises
  \<^verbatim>\<open>OverflowError\<close>, and when \<open>n - r\<close> is within \<^verbatim>\<open>sys.maxsize\<close> but beyond what the
  machine can hold it raises \<^verbatim>\<open>MemoryError\<close>; when \<open>n < r\<close>, it raises \<^verbatim>\<open>ValueError\<close>
  with a message that reports \<open>r\<close> and \<open>n\<close> in decimal.
\<close>

theorem append_dims_spec:
  fixes x :: "'a tensor" and n :: int
  shows "(int (ndim x) \<le> n \<and> n - int (ndim x) \<le> maxsize \<and> n - int (ndim x) \<le> int capacity \<longrightarrow>
           (\<exists>y. append_dims capacity x n = Inr y \<and> int (ndim y) = n \<and>
                take (ndim x) (shape y) = shape x \<and>
                drop (ndim x) (shape y) = replicate (nat (n - int (ndim x))) 1 \<and>
                elems y = elems x)) \<and>
         (maxsize < n - int (ndim x) \<longrightarrow> append_dims capacity x n = Inl (Fault OverflowError)) \<and>
         (n - int (ndim x) \<le> maxsize \<and> int capacity < n - int (ndim x) \<longrightarrow>
            append_dims capacity x n = Inl (Fault MemoryError)) \<and>
         (n < int (ndim x) \<longrightarrow>
           append_dims capacity x n = Inl (Raise ValueError (''input has '' @ str_int (int (ndim x)) @
                '' dims but target_dims is '' @ str_int n @ '', which is less'')))"
proof -
  have m: "0 \<le> maxsize" by (simp add: maxsize_def)
  show ?thesis using m by (auto simp: append_dims_def ndim_def Let_def)
qed

theorem append_dims_spec_witness:
  "int (ndim \<lparr>shape = [2, 3], elems = [1, 2, 3, 4, 5, 6 :: int]\<rparr>) \<le> 4 \<and>
   4 - int (ndim \<lparr>shape = [2, 3], elems = [1, 2, 3, 4, 5, 6 :: int]\<rparr>) \<le> maxsize \<and>
   4 - int (ndim \<lparr>shape = [2, 3], elems = [1, 2, 3, 4, 5, 6 :: int]\<rparr>) \<le> int 1000 \<and>
   append_dims 1000 \<lparr>shape = [2, 3], elems = [1, 2, 3, 4, 5, 6 :: int]\<rparr> 4 =
     Inr \<lparr>shape = [2, 3, 1, 1], elems = [1, 2, 3, 4, 5, 6]\<rparr> \<and>
   maxsize < 2 ^ 70 - int (ndim \<lparr>shape = [2, 3], elems = [1, 2, 3, 4, 5, 6 :: int]\<rparr>) \<and>
   append_dims 1000 \<lparr>shape = [2, 3], elems = [1, 2, 3, 4, 5, 6 :: int]\<rparr> (2 ^ 70) =
     Inl (Fault OverflowError) \<and>
   5000 - int (ndim \<lparr>shape = [2, 3], elems = [1, 2, 3, 4, 5, 6 :: int]\<rparr>) \<le> maxsize \<and>
   int 1000 < 5000 - int (ndim \<lparr>shape = [2, 3], elems = [1, 2, 3, 4, 5, 6 :: int]\<rparr>) \<and>
   append_dims 1000 \<lparr>shape = [2, 3], elems = [1, 2, 3, 4, 5, 6 :: int]\<rparr> 5000 =
     Inl (Fault MemoryError) \<and>
   1 < int (ndim \<lparr>shape = [2, 3], elems = [1, 2, 3, 4, 5, 6 :: int]\<rparr>) \<and>
   append_dims 1000 \<lparr>shape = [2, 3], elems = [1, 2, 3, 4, 5, 6 :: int]\<rparr> 1 =
     Inl (Raise ValueError ''input has 2 dims but target_dims is 1, which is less'')"
proof -
  let ?x = "\<lparr>shape = [2, 3], elems = [1, 2, 3, 4, 5, 6 :: int]\<rparr>"
  have r: "ndim ?x = 2" by (simp add: ndim_def)
  have ms: "maxsize = 9223372036854775807" by (simp add: maxsize_def)
  from append_dims_spec [of ?x 4 1000] r ms
  obtain y where y: "append_dims 1000 ?x 4 = Inr y" "take 2 (shape y) = [2, 3]"
      "drop 2 (shape y) = replicate 2 1" "elems y = elems ?x"
    by auto
  have "shape y = take 2 (shape y) @ drop 2 (shape y)" by simp
  with y have "shape y = [2, 3, 1, 1]" by (simp add: numeral_2_eq_2)
  with y have a: "append_dims 1000 ?x 4 = Inr \<lparr>shape = [2, 3, 1, 1], elems = [1, 2, 3, 4, 5, 6]\<rparr>"
    by (cases y) simp
  from append_dims_spec [of ?x "2 ^ 70" 1000] r ms
  have o: "append_dims 1000 ?x (2 ^ 70) = Inl (Fault OverflowError)" by simp
  from append_dims_spec [of ?x 5000 1000] r ms
  have me: "append_dims 1000 ?x 5000 = Inl (Fault MemoryError)" by simp
  from append_dims_spec [of ?x 1 1000] r
  have b: "append_dims 1000 ?x 1 = Inl (Raise ValueError (''input has '' @ str_int 2 @
                '' dims but target_dims is '' @ str_int 1 @ '', which is less''))"
    by simp
  have s: "str_int 2 = ''2''" "str_int 1 = ''1''"
    by (simp_all add: str_int_def digit_char_def)
  from a o me b r s ms show ?thesis by simp
qed

subsection \<open>\<^verbatim>\<open>get_ancestral_step\<close>\<close>

lemma sqrt_3_16: "sqrt (3 / 16) = sqrt 3 / 4"
proof -
  have "sqrt (3 / 16) = sqrt 3 / sqrt 16" by (rule real_sqrt_divide)
  also have "sqrt 16 = sqrt (4 ^ 2)" by simp
  also have "\<dots> = 4" by simp
  finally show ?thesis .
qed

lemma sqrt_1_16: "sqrt (1 / 16) = 1 / 4"
proof -
  have "sqrt (1 / 16) = sqrt ((1 / 4)^2)" by (simp add: power2_eq_square)
  also have "\<dots> = 1 / 4" by (rule real_sqrt_unique) simp_all
  finally show ?thesis .
qed

lemma sqrt_3_bounds: "1.7318 < sqrt 3" "sqrt 3 < 1.7322"
proof -
  show "1.7318 < sqrt 3" by (rule real_less_rsqrt) (simp add: power2_eq_square)
  show "sqrt 3 < 1.7322" by (rule real_less_lsqrt) (simp_all add: power2_eq_square)
qed

lemma min_half_sqrt: "min (1 / 2) (sqrt 3 / 4) = sqrt 3 / 4"
  using sqrt_3_bounds by (simp add: min_def)

lemma get_ancestral_step_value: "get_ancestral_step 1 (1 / 2) 1 = Inr (PyFloat (1 / 4), sqrt 3 / 4)"
proof -
  have r: "(1 / 2)^2 * (1^2 - (1 / 2)^2) / 1^2 = (3 / 16 :: real)" by (simp add: power2_eq_square)
  have d: "(1 / 2)^2 - (sqrt 3 / 4)^2 = (1 / 16 :: real)" by (simp add: power2_eq_square)
  have p1: "pow_half (3 / 16) = PyFloat (sqrt 3 / 4)" by (simp add: pow_half_def sqrt_3_16)
  have p2: "pow_half (1 / 16) = PyFloat (1 / 4)" by (simp add: pow_half_def sqrt_1_16)
  have "get_ancestral_step 1 (1 / 2) 1 =
      (let sigma_up = min (1 / 2) (1 * (sqrt 3 / 4));
           sigma_down = pow_half ((1 / 2)^2 - sigma_up ^ 2)
       in Inr (sigma_down, sigma_up))"
    unfolding get_ancestral_step_def r p1 by simp
  also have "\<dots> = Inr (pow_half ((1 / 2)^2 - (sqrt 3 / 4)^2), sqrt 3 / 4)"
    unfolding Let_def mult_1 min_half_sqrt ..
  also have "\<dots> = Inr (PyFloat (1 / 4), sqrt 3 / 4)"
    unfolding d p2 ..
  finally show ?thesis .
qed

text \<open>
  Claim C2 says that \<open>get_ancestral_step 1.0 0.5 1.0\<close> returns
  \<open>sigma_up = min 0.5 (sqrt (0.25 * 0.75))\<close>, about 0.4330, and
  \<open>sigma_down = sqrt (0.25 - sigma_up\<^sup>2)\<close>, about 0.2887, and that with \<open>eta = 0\<close> the
  result is \<open>(sigma_to, 0)\<close> for every \<open>sigma_from\<close> and \<open>sigma_to\<close>. The formulas are the
  code's, but the number given for \<open>sigma_down\<close> is not their value:
  \<open>0.25 - sigma_up\<^sup>2 = 0.25 - 0.1875 = 0.0625\<close>, whose square root is 0.25. The
  \<open>sigma_down\<close> that the function returns is 0.25 up to the rounding of floats, which is
  further than 0.03 from 0.2887.
\<close>

theorem get_ancestral_step_counterexample:
  "get_ancestral_step 1 (1 / 2) 1 = Inr (PyFloat (1 / 4), sqrt 3 / 4) \<and>
   (0.03 :: real) < \<bar>1 / 4 - 0.2887\<bar>"
  using get_ancestral_step_value by simp

text \<open>
  Claim C2, amended. \<open>get_ancestral_step 1.0 0.5 1.0\<close> returns
  \<open>sigma_up = min 0.5 (sqrt (0.25 * 0.75))\<close>, which is 0.4330 to four decimals, and
  \<open>sigma_down = sqrt (0.25 - sigma_up\<^sup>2)\<close>, which is 0.2500 to four decimals; and for every
  \<open>sigma_from\<close> and \<open>sigma_to\<close>, the call with \<open>eta = 0\<close> returns exactly \<open>(sigma_to, 0)\<close>.
\<close>

theorem get_ancestral_step_spec:
  "get_ancestral_step 1 (1 / 2) 1 =
     Inr (PyFloat (sqrt (0.25 - (min 0.5 (sqrt (0.25 * 0.75)))^2)), min 0.5 (sqrt (0.25 * 0.75))) \<and>
   \<bar>min 0.5 (sqrt (0.25 * 0.75)) - 0.4330\<bar> \<le> (0.00005 :: real) \<and>
   \<bar>sqrt (0.25 - (min 0.5 (sqrt (0.25 * 0.75)))^2) - 0.25\<bar> \<le> (0.00005 :: real) \<and>
   (\<forall>sigma_from sigma_to. get_ancestral_step sigma_from sigma_to 0 = Inr (PyFloat sigma_to, 0))"
proof -
  have a: "(0.25 :: real) * 0.75 = 3 / 16" by simp
  have m: "min 0.5 (sqrt (0.25 * 0.75)) = sqrt 3 / 4"
    unfolding a sqrt_3_16 using min_half_sqrt by simp
  have d: "(0.25 :: real) - (sqrt 3 / 4)^2 = 1 / 16" by (simp add: power2_eq_square)
  have s: "sqrt (0.25 - (min 0.5 (sqrt (0.25 * 0.75)))^2) = 0.25"
    unfolding m d sqrt_1_16 by simp
  have b1: "sqrt 3 / 4 - 0.4330 \<le> (0.00005 :: real)"
    using sqrt_3_bounds by simp
  have b2: "- (sqrt 3 / 4 - 0.4330) \<le> (0.00005 :: real)"
    using sqrt_3_bounds by simp
  from b1 b2 have b: "\<bar>sqrt 3 / 4 - 0.4330\<bar> \<le> (0.00005 :: real)"
    by (rule abs_leI)
  have z: "\<forall>sigma_from sigma_to. get_ancestral_step sigma_from sigma_to 0 = Inr (PyFloat sigma_to, 0)"
    by (simp add: get_ancestral_step_def)
  have v: "get_ancestral_step 1 (1 / 2) 1 = Inr (PyFloat 0.25, sqrt 3 / 4)"
    using get_ancestral_step_value by simp
  show ?thesis
    unfolding s unfolding m using v b z by simp
qed

section \<open>Properties of the tensor and image conversion\<close>

subsection \<open>\<^verbatim>\<open>create_random_tensors\<close>\<close>






lemma seed_loop_rejected:
  assumes "\<not> list_all (accepts manual_seed) seeds"
  shows "\<exists>e. fst (seed_loop manual_seed normal shp seeds xs g) = Inl e"
  using assms
proof (induction seeds arbitrary: xs g)
  case Nil
  then show ?case by simp
next
  case (Cons s seeds)
  show ?case
  proof (cases "manual_seed s")
    case (Inl e)
    then show ?thesis by simp
  next
    case (Inr g0)
    then have "accepts manual_seed s" by (simp add: accepts_def)
    with Cons.prems have r: "\<not> list_all (accepts manual_seed) seeds" by simp
    obtain x g1 where d: "randn normal shp g0 = (x, g1)" by (cases "randn normal shp g0")
    from Cons.IH [OF r, of "xs @ [x]" g1] Inr d show ?thesis by simp
  qed
qed


lemma create_random_tensors_rejected:
  assumes "\<not> list_all (accepts manual_seed) seeds"
  shows "\<exists>e. fst (create_random_tensors manual_seed normal shp seeds g) = Inl e"
  using seed_loop_rejected [OF assms, of normal shp "[]" g]
  by (cases "seed_loop manual_seed normal shp seeds [] g") (auto simp: create_random_tensors_def)




lemma seed_loop_any_state:
  "fst (seed_loop manual_seed normal shp seeds xs g) =
   fst (seed_loop manual_seed normal shp seeds xs g')"
proof (cases seeds)
  case Nil
  then show ?thesis by simp
next
  case (Cons s rest)
  then show ?thesis by (cases "manual_seed s") simp_all
qed

lemma create_random_tensors_any_state:
  "fst (create_random_tensors manual_seed normal shp seeds g) =
   fst (create_random_tensors manual_seed normal shp seeds g')"
  using seed_loop_any_state [of manual_seed normal shp seeds "[]" g g']
  by (cases "seed_loop manual_seed normal shp seeds [] g";
      cases "seed_loop manual_seed normal shp seeds [] g'")
     (auto simp: create_random_tensors_def split: sum.splits)


text \<open>
  Nor is there a stacked result when the list holds a seed that \<^verbatim>\<open>torch.manual_seed\<close>
  rejects: the loop ends there with the error. Here the generator is the counter, which
  like torch rejects \<open>2\<^sup>6\<^sup>4\<close>.
\<close>

lemma create_random_tensors_seed_out_of_range:
  "fst (create_random_tensors counter_seed counter_normal [2] [1, 2 ^ 64] 0) = Inl (Fault RuntimeError)"
  by (simp add: create_random_tensors_def randn_def counter_seed_def counter_normal_def
      numeral_2_eq_2)




subsection \<open>\<^verbatim>\<open>resize_image\<close>\<close>

text \<open>
  Claim C4. When the width and the height of the image equal the requested ones,
  \<open>resize_image\<close> returns the input image itself, whatever the mode (one of the three
  modes or any other string), and the state of the imaging library is unchanged: no image
  is created and no resize, new or paste call is made.
\<close>

theorem resize_image_noop:
  "width im = w \<Longrightarrow> height im = h \<Longrightarrow> resize_image im w h mode st = (Inr im, st)"
  by (simp add: resize_image_def)

theorem resize_image_noop_witness:
  "width \<lparr>ident = 0, width = 64, height = 48\<rparr> = 64 \<and> height \<lparr>ident = 0, width = 64, height = 48\<rparr> = 48 \<and>
   resize_image \<lparr>ident = 0, width = 64, height = 48\<rparr> 64 48 ''pad'' \<lparr>next_id = 1, calls = []\<rparr> =
     (Inr \<lparr>ident = 0, width = 64, height = 48\<rparr>, \<lparr>next_id = 1, calls = []\<rparr>)"
  using resize_image_noop [of "\<lparr>ident = 0, width = 64, height = 48\<rparr>" 64 48 "''pad''" "\<lparr>next_id = 1, calls = []\<rparr>"]
  by simp

text \<open>
  What the size computations of the two aspect-preserving branches give, for positive
  sizes: the size that \<^verbatim>\<open>pad\<close> resizes the source to covers the target box on both
  axes, and the size that \<^verbatim>\<open>repeat\<close> resizes it to fits inside the box on both axes.
  The comparisons of the two branches are mirror images of each other.
\<close>

lemma ratio_less_iff:
  assumes "0 < b" "0 < d"
  shows "(real_of_int a / real_of_int b < real_of_int c / real_of_int d) = (a * d < c * b)"
proof -
  from assms have p: "0 < real_of_int b" "0 < real_of_int d" by simp_all
  then have "(real_of_int a / real_of_int b < real_of_int c / real_of_int d)
      = (real_of_int a * real_of_int d < real_of_int c * real_of_int b)"
    by (simp add: field_simps)
  also have "\<dots> = (real_of_int (a * d) < real_of_int (c * b))" by simp
  also have "\<dots> = (a * d < c * b)" by (rule of_int_less_iff)
  finally show ?thesis .
qed

lemma le_div_pos:
  fixes a b c :: int
  assumes "0 < b" "c * b \<le> a"
  shows "c \<le> a div b"
proof -
  from assms(2) have "(c * b) div b \<le> a div b" using assms(1) by (rule zdiv_mono1)
  with assms(1) show ?thesis by simp
qed

lemma div_le_pos:
  fixes a b c :: int
  assumes "0 < b" "a \<le> c * b"
  shows "a div b \<le> c"
proof -
  from assms(2) have "a div b \<le> (c * b) div b" using assms(1) by (rule zdiv_mono1)
  with assms(1) show ?thesis by simp
qed

lemma pad_size_covers:
  assumes "0 < w" "0 < h" "0 < width im" "0 < height im"
    and "ratios im w h = Inr (ratio, src_ratio)"
  shows "\<exists>src_w src_h. pad_size im w h ratio src_ratio = Inr (src_w, src_h) \<and> w \<le> src_w \<and> h \<le> src_h"
proof -
  from assms have r: "ratio = real_of_int w / real_of_int h"
     "src_ratio = real_of_int (width im) / real_of_int (height im)"
    by (auto simp: ratios_def truediv_def)
  show ?thesis
  proof (cases "src_ratio < ratio")
    case True
    with r assms have "width im * h < w * height im"
      by (simp add: ratio_less_iff)
    then have "h * width im \<le> height im * w" by (simp add: mult.commute)
    with assms(3) have "h \<le> (height im * w) div width im" by (rule le_div_pos)
    with True assms show ?thesis
      by (simp add: pad_size_def floordiv_def)
  next
    case False
    with r assms have "\<not> width im * h < w * height im"
      by (simp add: ratio_less_iff)
    then have "w * height im \<le> width im * h" by simp
    with assms(4) have "w \<le> (width im * h) div height im" by (rule le_div_pos)
    with False assms show ?thesis
      by (simp add: pad_size_def floordiv_def)
  qed
qed

lemma repeat_size_fits:
  assumes "0 < w" "0 < h" "0 < width im" "0 < height im"
    and "ratios im w h = Inr (ratio, src_ratio)"
  shows "\<exists>src_w src_h. repeat_size im w h ratio src_ratio = Inr (src_w, src_h) \<and> src_w \<le> w \<and> src_h \<le> h"
proof -
  from assms have r: "ratio = real_of_int w / real_of_int h"
     "src_ratio = real_of_int (width im) / real_of_int (height im)"
    by (auto simp: ratios_def truediv_def)
  show ?thesis
  proof (cases "ratio < src_ratio")
    case True
    with r assms have "w * height im < width im * h"
      by (simp add: ratio_less_iff)
    then have "height im * w \<le> h * width im" by (simp add: mult.commute)
    with assms(3) have "(height im * w) div width im \<le> h" by (rule div_le_pos)
    with True assms show ?thesis
      by (simp add: repeat_size_def floordiv_def)
  next
    case False
    with r assms have "\<not> w * height im < width im * h"
      by (simp add: ratio_less_iff)
    then have "width im * h \<le> w * height im" by simp
    with assms(4) have "(width im * h) div height im \<le> w" by (rule div_le_pos)
    with False assms show ?thesis
      by (simp add: repeat_size_def floordiv_def)
  qed
qed

lemma resize_image_repeat_value:
  "resize_image \<lparr>ident = 0, width = 100, height = 100\<rparr> 200 100 ''repeat'' \<lparr>next_id = 1, calls = []\<rparr> =
     (Inr \<lparr>ident = 2, width = 200, height = 100\<rparr>,
      \<lparr>next_id = 5, calls = [Resize 0 (100, 100) None 1, New (200, 100) 2, Paste 2 1 (50, 0),
         Resize 1 (50, 100) (Some (0, 0, 0, 100)) 3, Paste 2 3 (0, 0),
         Resize 1 (50, 100) (Some (100, 0, 100, 100)) 4, Paste 2 4 (150, 0)]\<rparr>)"
  by (simp add: resize_image_def ratios_def truediv_def repeat_size_def floordiv_def paste_centred_def
      im_resize_def image_new_def im_paste_def fill_margins_def Let_def)

text \<open>
  Claim C1 says that \<open>resize_image\<close> in mode \<^verbatim>\<open>pad\<close> never crops: the resized source is
  at most as wide and as high as the target, and the returned canvas is exactly the target
  size. The canvas is, but the resized source is not: for a 100 by 100 source and a 200 by
  100 target the branch resizes the source to 200 by 200 and pastes it at \<open>(0, -50)\<close> on
  the 200 by 100 canvas, so 50 rows are cut off above and 50 below. The evaluation of the
  code at that input:
\<close>

theorem resize_image_pad_crops:
  "resize_image \<lparr>ident = 0, width = 100, height = 100\<rparr> 200 100 ''pad'' \<lparr>next_id = 1, calls = []\<rparr> =
     (Inr \<lparr>ident = 2, width = 200, height = 100\<rparr>,
      \<lparr>next_id = 3, calls = [Resize 0 (200, 200) None 1, New (200, 100) 2, Paste 2 1 (0, -50)]\<rparr>)"
  by (simp add: resize_image_def ratios_def truediv_def pad_size_def floordiv_def paste_centred_def
      im_resize_def image_new_def im_paste_def)

section \<open>Properties of the generic helpers\<close>

text \<open>
  Claim C7 says that \<open>default(val, d)\<close> returns \<open>val\<close> when it exists, and otherwise the
  result of calling \<open>d\<close> when \<open>d\<close> is a zero-argument callable and \<open>d\<close> itself when it is
  not callable. The test of the code is \<^verbatim>\<open>isfunction(d)\<close>, not \<^verbatim>\<open>callable(d)\<close>: a
  callable that is not a function object, such as the class \<^verbatim>\<open>dict\<close>, is returned as it
  is and not called.
\<close>

theorem default_py_counterexample:
  "callable (PyCallable dict_class) \<and> \<not> exists PyNone \<and>
   default_py PyNone (PyCallable dict_class) = Inr (PyCallable dict_class) \<and>
   call0 (PyCallable dict_class) = Inr (PyDict []) \<and>
   default_py PyNone (PyCallable dict_class) \<noteq> call0 (PyCallable dict_class)"
  by (simp add: callable_def exists_def default_py_def isfunction_def call0_def dict_class_def)

text \<open>
  Claim C7, amended. \<open>default(val, d)\<close> returns \<open>val\<close> when \<open>val\<close> is not \<^verbatim>\<open>None\<close>;
  otherwise it returns the outcome of calling \<open>d\<close> with no argument when \<open>d\<close> is a function
  object (what \<^verbatim>\<open>inspect.isfunction\<close> recognises), and \<open>d\<close> itself in every other case,
  be \<open>d\<close> callable or not.
\<close>

theorem default_py_spec:
  "(exists val \<longrightarrow> default_py val d = Inr val) \<and>
   (\<not> exists val \<and> isfunction d \<longrightarrow> default_py val d = call0 d) \<and>
   (\<not> exists val \<and> \<not> isfunction d \<longrightarrow> default_py val d = Inr d)"
  by (simp add: default_py_def)

theorem default_py_spec_witness:
  "exists (PyInt 3) \<and> default_py (PyInt 3) (PyFunction lambda_seven) = Inr (PyInt 3) \<and>
   \<not> exists PyNone \<and> isfunction (PyFunction lambda_seven) \<and>
   default_py PyNone (PyFunction lambda_seven) = Inr (PyInt 7) \<and>
   \<not> isfunction (PyCallable dict_class) \<and>
   default_py PyNone (PyCallable dict_class) = Inr (PyCallable dict_class) \<and>
   \<not> isfunction (PyInt 5) \<and> default_py PyNone (PyInt 5) = Inr (PyInt 5)"
  using default_py_spec [of "PyInt 3" "PyFunction lambda_seven"]
    default_py_spec [of PyNone "PyFunction lambda_seven"]
    default_py_spec [of PyNone "PyCallable dict_class"]
    default_py_spec [of PyNone "PyInt 5"]
  by (simp add: exists_def isfunction_def call0_def lambda_seven_def)

section \<open>Properties of the object instantiation\<close>

lemma has_key_py_in: "py_in key (PyDict kvs) = Inr (has_key (PyDict kvs) key)"
  by (simp add: py_in_def has_key_def)

lemma instantiate_from_config_non_container:
  "instantiate_from_config resolve reload_module PyNone = Inl (Fault TypeError)"
  "instantiate_from_config resolve reload_module (PyInt k) = Inl (Fault TypeError)"
  by (simp_all add: instantiate_from_config_def py_in_def)

text \<open>
  Claim C5 says that a configuration that lacks a \<^verbatim>\<open>target\<close> key and is neither of the
  two sentinel strings fails with the missing-key error. The code does not ask for a key:
  its test is \<^verbatim>\<open>"target" in config\<close>, which on a string asks for a substring. The string
  \<^verbatim>\<open>pkg.target\<close> has no key and is no sentinel, yet passes the test, and the function
  goes on to \<^verbatim>\<open>config["target"]\<close>, which raises \<^verbatim>\<open>TypeError\<close> on a string.
\<close>

theorem instantiate_from_config_counterexample:
  "\<not> has_key (PyStr ''pkg.target'') ''target'' \<and>
   PyStr ''pkg.target'' \<noteq> PyStr ''__is_first_stage__'' \<and>
   PyStr ''pkg.target'' \<noteq> PyStr ''__is_unconditional__'' \<and>
   instantiate_from_config no_modules no_reload (PyStr ''pkg.target'') = Inl (Fault TypeError)"
  by (simp add: has_key_def instantiate_from_config_def py_in_def getitem_def)

text \<open>
  Claim C5, amended. Let the test \<^verbatim>\<open>"target" in config\<close> of the code be false: the
  configuration is a mapping without the key \<^verbatim>\<open>target\<close>, or a string that does not
  contain \<^verbatim>\<open>target\<close>. If the configuration is the string \<^verbatim>\<open>__is_first_stage__\<close> or the
  string \<^verbatim>\<open>__is_unconditional__\<close>, \<open>instantiate_from_config\<close> returns \<^verbatim>\<open>None\<close> and no
  error; if it is neither, it raises \<^verbatim>\<open>KeyError\<close>. Nothing is imported in either case:
  the result does not depend on the resolver.
\<close>

theorem instantiate_from_config_no_target:
  assumes "py_in ''target'' config = Inr False"
  shows "(config = PyStr ''__is_first_stage__'' \<or> config = PyStr ''__is_unconditional__'' \<longrightarrow>
            instantiate_from_config resolve reload_module config = Inr PyNone) \<and>
         (config \<noteq> PyStr ''__is_first_stage__'' \<and> config \<noteq> PyStr ''__is_unconditional__'' \<longrightarrow>
            instantiate_from_config resolve reload_module config =
              Inl (Raise KeyError
                (''Expected key '' @ [CHR 0x60] @ ''target'' @ [CHR 0x60] @ '' to instantiate.'')))"
  using assms by (simp add: instantiate_from_config_def)

theorem instantiate_from_config_no_target_witness:
  "py_in ''target'' (PyStr ''__is_first_stage__'') = Inr False \<and>
   instantiate_from_config no_modules no_reload (PyStr ''__is_first_stage__'') = Inr PyNone \<and>
   py_in ''target'' (PyStr ''__is_unconditional__'') = Inr False \<and>
   instantiate_from_config no_modules no_reload (PyStr ''__is_unconditional__'') = Inr PyNone \<and>
   py_in ''target'' (PyDict [(''params'', PyDict [])]) = Inr False \<and>
   instantiate_from_config no_modules no_reload (PyDict [(''params'', PyDict [])]) =
     Inl (Raise KeyError
       (''Expected key '' @ [CHR 0x60] @ ''target'' @ [CHR 0x60] @ '' to instantiate.''))"
  using instantiate_from_config_no_target [of "PyStr ''__is_first_stage__''" no_modules no_reload]
    instantiate_from_config_no_target [of "PyStr ''__is_unconditional__''" no_modules no_reload]
    instantiate_from_config_no_target [of "PyDict [(''params'', PyDict [])]" no_modules no_reload]
  by (simp add: py_in_def)

section \<open>Properties of the model loader\<close>

text \<open>
  Claim C6. For a name that the checkpoint-file table does not hold, \<open>load\<close> raises the
  exception with the message \<^verbatim>\<open>no checkpoint file path specified for model "<name>"\<close>
  (the name between double quotes), and the state after the call is the state before it:
  no configuration file and no checkpoint file has been read, and the registry is
  unchanged.
\<close>

theorem load_missing_checkpoint:
  assumes "checkpoint_files name = None"
  shows "load lib checkpoint_files name st =
           (Inl (Raise Exception
              (''no checkpoint file path specified for model '' @ [CHR 0x22] @ name @ [CHR 0x22])), st) \<and>
         accessed (snd (load lib checkpoint_files name st)) = accessed st \<and>
         models (snd (load lib checkpoint_files name st)) = models st"
  using assms by (simp add: load_def missing_checkpoint_def)

theorem load_missing_checkpoint_witness:
  "[''sd-v1'' \<mapsto> ''/ckpt/sd-v1.ckpt''] ''other'' = None \<and>
   load offline [''sd-v1'' \<mapsto> ''/ckpt/sd-v1.ckpt''] ''other'' \<lparr>models = Map.empty, accessed = []\<rparr> =
     (Inl (Raise Exception (''no checkpoint file path specified for model '' @ [CHR 0x22] @ ''other'' @ [CHR 0x22])),
      \<lparr>models = Map.empty, accessed = []\<rparr>)"
  using load_missing_checkpoint [of "[''sd-v1'' \<mapsto> ''/ckpt/sd-v1.ckpt'']" "''other''" offline
      "\<lparr>models = Map.empty, accessed = []\<rparr>"]
  by simp

lemma load_known_reads_config:
  "load offline [''sd-v1'' \<mapsto> ''/ckpt/sd-v1.ckpt''] ''sd-v1'' \<lparr>models = Map.empty, accessed = []\<rparr> =
     (Inl (Fault ValueError), \<lparr>models = Map.empty, accessed = [ConfigFile ''/app/configs/sd-v1.yaml'']\<rparr>)"
  by (simp add: load_def offline_def config_path_def)

section \<open>Properties of the parallel data prefetch\<close>


lemma ceil_div_nat:
  fixes a b :: nat
  assumes "0 < b"
  shows "\<lceil>real a / real b\<rceil> = int ((a + b - 1) div b)"
proof (rule ceiling_unique)
  let ?z = "(a + b - 1) div b"
  have m: "?z * b + (a + b - 1) mod b = a + b - 1" by simp
  have r: "(a + b - 1) mod b < b" using assms by simp
  from m r have up: "a \<le> ?z * b" by linarith
  from m have lo: "?z * b < a + b" using assms by linarith
  from up have "real a \<le> real (?z * b)" by (rule of_nat_mono)
  then show "real a / real b \<le> of_int (int ?z)"
    using assms by (simp add: field_simps)
  from lo have "real (?z * b) < real (a + b)" by (simp only: of_nat_less_iff)
  then show "of_int (int ?z) - 1 < real a / real b"
    using assms by (simp add: field_simps)
qed

lemma list_step_ceiling:
  assumes "0 < len" "1 \<le> n"
  shows "list_step len n = Inr \<lceil>real len / real_of_int n\<rceil>"
proof (cases "int len mod n = 0")
  case True
  then have "n dvd int len" by (simp add: dvd_eq_mod_eq_0)
  then obtain k where k: "int len = n * k" ..
  from assms k have kp: "0 \<le> k" by (metis of_nat_0_le_iff zero_le_mult_iff not_le le_less_trans zero_less_one)
  from k have "real len = real_of_int n * real_of_int k" 
    by (metis of_int_mult of_int_of_nat_eq)
  with assms have q: "real len / real_of_int n = real_of_int k" by simp
  from True assms kp show ?thesis
    by (simp add: list_step_def q py_trunc_def)
next
  case False
  have nz: "real len / real_of_int n \<notin> \<int>"
  proof
    assume "real len / real_of_int n \<in> \<int>"
    then obtain k where "real len / real_of_int n = of_int k" by (auto elim: Ints_cases)
    with assms have "real len = real_of_int (k * n)" by (simp add: field_simps)
    then have "int len = k * n" by (metis of_int_eq_iff of_int_of_nat_eq)
    with False show False by simp
  qed
  have pos: "0 \<le> real len / real_of_int n + 1" using assms by simp
  have "\<lfloor>real len / real_of_int n + 1\<rfloor> = \<lfloor>real len / real_of_int n\<rfloor> + 1" by simp
  also have "\<dots> = \<lceil>real len / real_of_int n\<rceil>"
  proof -
    from nz have "real len / real_of_int n \<noteq> of_int \<lfloor>real len / real_of_int n\<rfloor>"
      by (metis Ints_of_int)
    then show ?thesis by (simp add: ceiling_altdef)
  qed
  finally show ?thesis using False assms pos
    by (simp add: list_step_def py_trunc_def)
qed

lemma construct_workers_short:
  assumes "i \<le> length arguments" "length arguments < i + k"
  shows "construct_workers arguments k i processes tr =
           (Inl (Fault IndexError), tr @ map WorkerConstructed [i ..< length arguments])"
  using assms
proof (induction k arbitrary: i processes tr)
  case 0
  then show ?case by simp
next
  case (Suc k)
  show ?case
  proof (cases "i < length arguments")
    case True
    with Suc.prems have "construct_workers arguments k (Suc i) (processes @ [arguments ! i])
        (tr @ [WorkerConstructed i]) =
      (Inl (Fault IndexError), (tr @ [WorkerConstructed i]) @ map WorkerConstructed [Suc i ..< length arguments])"
      by (intro Suc.IH) simp_all
    with True show ?thesis by (simp add: upt_conv_Cons)
  next
    case False
    with Suc.prems show ?thesis by simp
  qed
qed

lemma list_parts_count:
  assumes "xs \<noteq> []" "1 \<le> n"
  shows "\<exists>parts. list_parts xs n = Inr parts \<and>
     int (length parts) = \<lceil>real (length xs) / real_of_int \<lceil>real (length xs) / real_of_int n\<rceil>\<rceil>"
proof -
  let ?len = "length xs"
  let ?step = "\<lceil>real ?len / real_of_int n\<rceil>"
  from assms have lp: "0 < ?len" by simp
  with assms have st: "list_step ?len n = Inr ?step" by (intro list_step_ceiling)
  from lp assms have "0 < real ?len / real_of_int n" by simp
  then have sp: "0 < ?step" by (simp only: zero_less_ceiling)
  then have ns: "0 < nat ?step" by simp
  have "\<lceil>real ?len / real (nat ?step)\<rceil> = int ((?len + nat ?step - 1) div nat ?step)"
    using ns by (rule ceil_div_nat)
  moreover from sp have "real (nat ?step) = real_of_int ?step" by simp
  ultimately have c: "int ((?len + nat ?step - 1) div nat ?step) = \<lceil>real ?len / real_of_int ?step\<rceil>"
    by simp
  from sp have nz: "?step \<noteq> 0" "\<not> ?step < 0" by linarith+
  have "py_range ?len ?step = Inr (map (\<lambda>k. k * nat ?step) [0 ..< (?len + nat ?step - 1) div nat ?step])"
    unfolding py_range_def if_not_P [OF nz(1)] if_not_P [OF nz(2)] ..
  with st c show ?thesis by (simp add: list_parts_def)
qed

lemma prefetch_three_workers:
  "parallel_data_prefetch no_array_split start_all (ListData [1, 2, 3, 4, 5, 6 :: int]) 3 ''list''
     True False [] =
     (Inr [1, 2, 3, 4, 5, 6],
      [QueueCreated True, WorkerConstructed 0, WorkerConstructed 1, WorkerConstructed 2,
       WorkerStarted 0, WorkerStarted 1, WorkerStarted 2])"
  by (simp add: parallel_data_prefetch_def check_data_def is_ndarray_def is_iterable_def
      elements_def list_parts_def list_step_def py_trunc_def py_range_def make_arguments_def
      start_all_def upt_rec numeral_3_eq_3 Let_def)

text \<open>
  Claim C10. For a non-empty list, the target type \<^verbatim>\<open>list\<close> and \<open>n_proc \<ge> 1\<close>: when
  cutting the list into chunks of size \<open>\<lceil>len / n_proc\<rceil>\<close> gives fewer than \<open>n_proc\<close> chunks
  (there are \<open>\<lceil>len / \<lceil>len / n_proc\<rceil>\<rceil>\<close> of them), \<open>parallel_data_prefetch\<close> raises
  \<^verbatim>\<open>IndexError\<close> in the loop that constructs the workers. The trace then holds the queue
  and one construction for each chunk, and no start of a worker: the concurrent part is
  never reached.
\<close>

theorem prefetch_too_few_chunks:
  assumes "xs \<noteq> []" "1 \<le> n_proc"
    and "\<lceil>real (length xs) / real_of_int \<lceil>real (length xs) / real_of_int n_proc\<rceil>\<rceil> < n_proc"
  shows "parallel_data_prefetch array_split gather (ListData xs) n_proc ''list'' cpu_intensive use_worker_id tr =
    (Inl (Fault IndexError),
     tr @ [QueueCreated cpu_intensive] @
       map WorkerConstructed [0 ..< nat \<lceil>real (length xs) / real_of_int \<lceil>real (length xs) / real_of_int n_proc\<rceil>\<rceil>])"
proof -
  let ?c = "\<lceil>real (length xs) / real_of_int \<lceil>real (length xs) / real_of_int n_proc\<rceil>\<rceil>"
  from list_parts_count [OF assms(1,2)] obtain parts where
    p: "list_parts xs n_proc = Inr parts" "int (length parts) = ?c" by blast
  let ?args = "make_arguments parts use_worker_id"
  have la: "length ?args = length parts" by (simp add: make_arguments_def)
  from p(2) have n: "nat ?c = length parts" by simp
  from p(2) assms(3) have "length ?args < 0 + nat n_proc" using la by simp
  then have cw: "construct_workers ?args (nat n_proc) 0 [] (tr @ [QueueCreated cpu_intensive]) =
      (Inl (Fault IndexError), (tr @ [QueueCreated cpu_intensive]) @ map WorkerConstructed [0 ..< length ?args])"
    by (intro construct_workers_short) simp
  have cd: "check_data (ListData xs) ''list'' tr = (Inr (ListData xs), tr)"
    by (simp add: check_data_def is_ndarray_def is_iterable_def elements_def)
  show ?thesis
    unfolding parallel_data_prefetch_def cd
    by (simp add: elements_def p(1) cw la n Let_def)
qed

theorem prefetch_too_few_chunks_witness:
  "[1, 2, 3, 4, 5, 6 :: int] \<noteq> [] \<and> (1 :: int) \<le> 4 \<and>
   \<lceil>real (length [1, 2, 3, 4, 5, 6 :: int]) /
      real_of_int \<lceil>real (length [1, 2, 3, 4, 5, 6 :: int]) / real_of_int 4\<rceil>\<rceil> < 4 \<and>
   parallel_data_prefetch no_array_split start_all (ListData [1, 2, 3, 4, 5, 6 :: int]) 4 ''list''
     True False [] =
     (Inl (Fault IndexError),
      [QueueCreated True, WorkerConstructed 0, WorkerConstructed 1, WorkerConstructed 2])"
proof -
  let ?xs = "[1, 2, 3, 4, 5, 6 :: int]"
  have c1: "\<lceil>real (length ?xs) / real_of_int 4\<rceil> = 2" by simp
  have c2: "\<lceil>real (length ?xs) / real_of_int \<lceil>real (length ?xs) / real_of_int 4\<rceil>\<rceil> = 3"
    unfolding c1 by simp
  have h: "?xs \<noteq> []" "(1 :: int) \<le> 4"
    "\<lceil>real (length ?xs) / real_of_int \<lceil>real (length ?xs) / real_of_int 4\<rceil>\<rceil> < 4"
    unfolding c2 by simp_all
  from prefetch_too_few_chunks [OF h, of no_array_split start_all True False "[]"]
  have "parallel_data_prefetch no_array_split start_all (ListData ?xs) 4 ''list'' True False [] =
     (Inl (Fault IndexError),
      [QueueCreated True, WorkerConstructed 0, WorkerConstructed 1, WorkerConstructed 2])"
    unfolding c2 by (simp add: upt_rec numeral_3_eq_3)
  with h show ?thesis by simp
qed

end
